theory Spec2Isabelle
  imports Complex_Main "HOL-Library.AList" "HOL-Library.Monad_Syntax"
begin

section \<open>Python values\<close>

text \<open>
  A Python \<open>str\<close> is a sequence of Unicode code points, so \<open>len\<close> is \<open>length\<close>.
  The keys and category words of the source are ASCII and are written with \<open>ascii\<close>;
  the canonical category names are Cyrillic and are given by their code points.
\<close>

type_synonym str = "nat list"

definition ascii :: "string \<Rightarrow> str" where
  "ascii s = map of_char s"

text \<open>
  What \<open>json.load\<close> returns: \<open>None\<close>, \<open>bool\<close>, \<open>int\<close>, \<open>float\<close>, \<open>str\<close>, \<open>list\<close>,
  \<open>dict\<close>. A dict is an association list read with \<open>map_of\<close>. A finite \<open>float\<close> is the
  rational number it denotes; NaN, the infinities and the sign of zero are not modelled.
\<close>

datatype json =
    JNull
  | JBool bool
  | JInt int
  | JFloat rat
  | JStr str
  | JArr "json list"
  | JObj "(str \<times> json) list"

datatype py_error =
    TypeError
  | AttributeError
  | ValidationError
  | FileNotFoundError
  | JSONDecodeError

text \<open>
  Behaviour of the Python runtime and of the pydantic library that the repository does
  not define: \<open>str.lower\<close> outside ASCII, and how pydantic coerces a loosely typed value
  to \<open>int\<close>, \<open>float\<close> and \<open>str\<close> (\<open>None\<close> is a validation error). Every function below
  takes them as the parameter \<open>E\<close>.
\<close>

record pyenv =
  unicode_lower :: "str \<Rightarrow> str"
  int_validator :: "json \<Rightarrow> int option"
  float_validator :: "json \<Rightarrow> rat option"
  str_validator :: "json \<Rightarrow> str option"

definition ascii_lower :: "nat \<Rightarrow> nat" where
  "ascii_lower c = (if 65 \<le> c \<and> c \<le> 90 then c + 32 else c)"

text \<open>\<open>s.lower()\<close>: on an ASCII string the letters A..Z are lowered.\<close>

definition lower :: "pyenv \<Rightarrow> str \<Rightarrow> str" where
  "lower E s = (if list_all (\<lambda>c. c < 128) s then map ascii_lower s else unicode_lower E s)"

text \<open>\<open>raw.get(key, default)\<close>: only a dict has the method.\<close>

fun dict_get :: "json \<Rightarrow> str \<Rightarrow> json \<Rightarrow> py_error + json" where
  "dict_get (JObj kvs) k d = Inr (case map_of kvs k of None \<Rightarrow> d | Some v \<Rightarrow> v)"
| "dict_get _ k d = Inl AttributeError"

text \<open>\<open>v <= 0\<close> on a loosely typed value: numbers and booleans compare, the rest raise.\<close>

fun py_le_0 :: "json \<Rightarrow> py_error + bool" where
  "py_le_0 (JInt n) = Inr (n \<le> 0)"
| "py_le_0 (JFloat x) = Inr (x \<le> 0)"
| "py_le_0 (JBool b) = Inr (\<not> b)"
| "py_le_0 _ = Inl TypeError"

subsection \<open>Float arithmetic\<close>

text \<open>
  A Python \<open>float\<close> is an IEEE 754 binary64 number: 53 significant bits, least exponent
  -1022, and every operation returns the double nearest to the exact result, a tie going
  to the even significand. \<open>exponent x\<close> is the \<open>e\<close> with \<open>2 ^ e <= x < 2 ^ (e + 1)\<close>, for
  \<open>x > 0\<close>.
\<close>

definition pow2 :: "int \<Rightarrow> rat" where
  "pow2 e = (if 0 \<le> e then 2 ^ nat e else 1 / 2 ^ nat (- e))"

function halvings :: "rat \<Rightarrow> int" where
  "halvings x = (if 2 \<le> x then halvings (x / 2) + 1 else 0)"
  by pat_completeness auto
termination
proof (relation "measure (\<lambda>x. nat \<lfloor>x\<rfloor>)")
  show "wf (measure (\<lambda>x::rat. nat \<lfloor>x\<rfloor>))"
    by simp
next
  fix x :: rat
  assume x: "2 \<le> x"
  then have "x / 2 \<le> x - 1"
    by simp
  then have "\<lfloor>x / 2\<rfloor> \<le> \<lfloor>x - 1\<rfloor>"
    by (rule floor_mono)
  moreover have "2 \<le> \<lfloor>x\<rfloor>"
    using x by (simp add: le_floor_iff)
  ultimately show "(x / 2, x) \<in> measure (\<lambda>x. nat \<lfloor>x\<rfloor>)"
    by simp
qed

function doublings :: "rat \<Rightarrow> int" where
  "doublings x = (if 0 < x \<and> x < 1 then doublings (2 * x) + 1 else 0)"
  by pat_completeness auto
termination
proof (relation "measure (\<lambda>x. nat \<lfloor>1 / x\<rfloor>)")
  show "wf (measure (\<lambda>x::rat. nat \<lfloor>1 / x\<rfloor>))"
    by simp
next
  fix x :: rat
  assume x: "0 < x \<and> x < 1"
  define y where "y = 1 / x"
  define n where "n = \<lfloor>y\<rfloor>"
  from x have "1 < y"
    by (simp add: y_def)
  then have n: "1 \<le> n"
    by (simp add: n_def le_floor_iff)
  then have "(1::rat) \<le> of_int n"
    by (metis of_int_1 of_int_le_iff)
  moreover have "y < of_int n + 1"
    unfolding n_def by linarith
  ultimately have "y / 2 < of_int n"
    by linarith
  then have "\<lfloor>y / 2\<rfloor> < n"
    by (simp add: floor_less_iff)
  moreover have "1 / (2 * x) = y / 2"
    by (simp add: y_def)
  ultimately have "\<lfloor>1 / (2 * x)\<rfloor> < \<lfloor>1 / x\<rfloor>"
    by (simp only: y_def n_def)
  with n show "(2 * x, x) \<in> measure (\<lambda>x. nat \<lfloor>1 / x\<rfloor>)"
    by (simp add: y_def n_def)
qed

definition exponent :: "rat \<Rightarrow> int" where
  "exponent x = (if 1 \<le> x then halvings x else - doublings x)"

text \<open>The nearest integer, a tie to the even one.\<close>

definition round_half_even :: "rat \<Rightarrow> int" where
  "round_half_even y =
     (let f = \<lfloor>y\<rfloor>; r = y - of_int f
      in if r < 1 / 2 then f else if 1 / 2 < r then f + 1
         else if even f then f else f + 1)"

text \<open>
  \<open>fl x\<close>: the double nearest to \<open>x\<close>, subnormal numbers included. The exponent has no
  upper bound here: where the result is \<open>2 ^ 1024\<close> or beyond, Python has an infinity,
  and \<open>finite_double\<close> is false.
\<close>

definition fl :: "rat \<Rightarrow> rat" where
  "fl x =
     (if x = 0 then 0
      else (let q = max (exponent \<bar>x\<bar>) (- 1022) - 52
            in of_int (round_half_even (x / pow2 q)) * pow2 q))"

definition finite_double :: "rat \<Rightarrow> bool" where
  "finite_double x \<longleftrightarrow> \<bar>x\<bar> < 2 ^ 1024"

text \<open>\<open>a - b\<close>, \<open>a / b\<close> (for \<open>b\<close> not 0) and \<open>a * b\<close> on floats.\<close>

definition float_sub :: "rat \<Rightarrow> rat \<Rightarrow> rat" where
  "float_sub a b = fl (a - b)"

definition float_truediv :: "rat \<Rightarrow> rat \<Rightarrow> rat" where
  "float_truediv a b = fl (a / b)"

definition float_mul :: "rat \<Rightarrow> rat \<Rightarrow> rat" where
  "float_mul a b = fl (a * b)"

text \<open>
  \<open>round(x, nd)\<close> on a float, for the small \<open>nd\<close> of the source: the exact value of \<open>x\<close> is
  rounded to \<open>nd\<close> decimals, a tie to the even digit, and the decimal is converted back
  to the nearest double.
\<close>

definition py_round :: "rat \<Rightarrow> nat \<Rightarrow> rat" where
  "py_round x nd = fl (of_int (round_half_even (x * 10 ^ nd)) / 10 ^ nd)"

text \<open>Truth value of an \<open>Optional[str]\<close>: \<open>None\<close> and the empty string are false.\<close>

fun truthy :: "str option \<Rightarrow> bool" where
  "truthy None = False"
| "truthy (Some s) = (s \<noteq> [])"

section \<open>The pydantic models (lab_5.py, lines 17 to 44)\<close>

record ProductBase =
  name :: str
  category :: str
  price :: rat
  stock :: int

record ProductSourceA = ProductBase +
  id_A :: int

record ProductSourceB =
  product_id :: int
  b_name :: "str option"
  b_category :: "str option"
  b_description :: "str option"
  b_supplier :: "str option"
  old_price :: "rat option"
  b_price :: "rat option"
  b_stock :: "int option"

record ConsolidatedProduct = ProductBase +
  id_C :: int
  description :: "str option"
  supplier :: "str option"
  price_change_percentage :: "rat option"

text \<open>The field constraints of \<open>ProductBase\<close>: \<open>min_length=3\<close>, \<open>gt=0\<close>, \<open>ge=0\<close>.\<close>

definition ProductBase_ok :: "str \<Rightarrow> rat \<Rightarrow> int \<Rightarrow> bool" where
  "ProductBase_ok n p s \<longleftrightarrow> 3 \<le> length n \<and> 0 < p \<and> 0 \<le> s"

text \<open>A required field must be present and validate; an optional one may be missing or null.\<close>

definition required :: "(json \<Rightarrow> 'a option) \<Rightarrow> (str \<times> json) list \<Rightarrow> str \<Rightarrow> 'a option" where
  "required val kvs k = (case map_of kvs k of None \<Rightarrow> None | Some v \<Rightarrow> val v)"

definition optional :: "(json \<Rightarrow> 'a option) \<Rightarrow> (str \<times> json) list \<Rightarrow> str \<Rightarrow> 'a option option" where
  "optional val kvs k =
     (case map_of kvs k of
        None \<Rightarrow> Some None
      | Some JNull \<Rightarrow> Some None
      | Some v \<Rightarrow> map_option Some (val v))"

definition raise_if_None :: "'a option \<Rightarrow> py_error + 'a" where
  "raise_if_None x = (case x of None \<Rightarrow> Inl ValidationError | Some v \<Rightarrow> Inr v)"

text \<open>\<open>ProductSourceA(**raw)\<close>: unpacking anything but a dict is a TypeError.\<close>

fun ProductSourceA_init :: "pyenv \<Rightarrow> json \<Rightarrow> py_error + ProductSourceA" where
  "ProductSourceA_init E (JObj kvs) = raise_if_None (do {
     n \<leftarrow> required (str_validator E) kvs (ascii ''name'');
     c \<leftarrow> required (str_validator E) kvs (ascii ''category'');
     p \<leftarrow> required (float_validator E) kvs (ascii ''price'');
     s \<leftarrow> required (int_validator E) kvs (ascii ''stock'');
     i \<leftarrow> required (int_validator E) kvs (ascii ''id'');
     if ProductBase_ok n p s
     then Some \<lparr>name = n, category = c, price = p, stock = s, id_A = i\<rparr>
     else None })"
| "ProductSourceA_init E _ = Inl TypeError"

text \<open>\<open>ProductSourceB(**raw)\<close>: only \<open>product_id\<close> is required, no field is constrained.\<close>

fun ProductSourceB_init :: "pyenv \<Rightarrow> json \<Rightarrow> py_error + ProductSourceB" where
  "ProductSourceB_init E (JObj kvs) = raise_if_None (do {
     i \<leftarrow> required (int_validator E) kvs (ascii ''product_id'');
     n \<leftarrow> optional (str_validator E) kvs (ascii ''name'');
     c \<leftarrow> optional (str_validator E) kvs (ascii ''category'');
     d \<leftarrow> optional (str_validator E) kvs (ascii ''description'');
     su \<leftarrow> optional (str_validator E) kvs (ascii ''supplier'');
     op \<leftarrow> optional (float_validator E) kvs (ascii ''old_price'');
     p \<leftarrow> optional (float_validator E) kvs (ascii ''price'');
     s \<leftarrow> optional (int_validator E) kvs (ascii ''stock'');
     Some \<lparr>product_id = i, b_name = n, b_category = c, b_description = d,
           b_supplier = su, old_price = op, b_price = p, b_stock = s\<rparr> })"
| "ProductSourceB_init E _ = Inl TypeError"

text \<open>
  \<open>ConsolidatedProduct(id=..., name=..., ...)\<close> on values that already have their types
  (lines 136 and 214): the constraints of \<open>ProductBase\<close> are checked again, and
  \<open>price_change_percentage\<close> takes its default.
\<close>

definition ConsolidatedProduct_init ::
  "int \<Rightarrow> str \<Rightarrow> str \<Rightarrow> rat \<Rightarrow> int \<Rightarrow> str option \<Rightarrow> str option \<Rightarrow> py_error + ConsolidatedProduct" where
  "ConsolidatedProduct_init i n c p s d su =
     (if ProductBase_ok n p s
      then Inr \<lparr>name = n, category = c, price = p, stock = s, id_C = i,
                description = d, supplier = su, price_change_percentage = None\<rparr>
      else Inl ValidationError)"

text \<open>\<open>ConsolidatedProduct(**item)\<close> on a loosely typed value (line 278).\<close>

fun ConsolidatedProduct_parse :: "pyenv \<Rightarrow> json \<Rightarrow> py_error + ConsolidatedProduct" where
  "ConsolidatedProduct_parse E (JObj kvs) = raise_if_None (do {
     n \<leftarrow> required (str_validator E) kvs (ascii ''name'');
     c \<leftarrow> required (str_validator E) kvs (ascii ''category'');
     p \<leftarrow> required (float_validator E) kvs (ascii ''price'');
     s \<leftarrow> required (int_validator E) kvs (ascii ''stock'');
     i \<leftarrow> required (int_validator E) kvs (ascii ''id'');
     d \<leftarrow> optional (str_validator E) kvs (ascii ''description'');
     su \<leftarrow> optional (str_validator E) kvs (ascii ''supplier'');
     pc \<leftarrow> optional (float_validator E) kvs (ascii ''price_change_percentage'');
     if ProductBase_ok n p s
     then Some \<lparr>name = n, category = c, price = p, stock = s, id_C = i,
                description = d, supplier = su, price_change_percentage = pc\<rparr>
     else None })"
| "ConsolidatedProduct_parse E _ = Inl TypeError"

section \<open>transform_data (lab_5.py, lines 106 to 226)\<close>

text \<open>
  The category chain. The source writes it three times (lines 124 to 133, 161 to 172,
  200 to 211) with the same words and the same canonical names; where no word matches,
  the category stays as it is.
\<close>

definition standardize_category :: "pyenv \<Rightarrow> str \<Rightarrow> str" where
  "standardize_category E c =
     (if lower E c \<in> set [ascii ''laptops'', ascii ''notebooks'']
      then [1053, 1086, 1091, 1090, 1073, 1091, 1082, 1080]
      else if lower E c \<in> set [ascii ''smartphones'', ascii ''phones'']
      then [1057, 1084, 1072, 1088, 1090, 1092, 1086, 1085, 1080]
      else if lower E c \<in> set [ascii ''audio'', ascii ''headphones'']
      then [1040, 1091, 1076, 1110, 1086, 1090, 1077, 1093, 1085, 1110, 1082, 1072]
      else if lower E c \<in> set [ascii ''tablets'']
      then [1055, 1083, 1072, 1085, 1096, 1077, 1090, 1080]
      else if lower E c \<in> set [ascii ''wearables'']
      then [1053, 1086, 1089, 1080, 1084, 1110, 32, 1087, 1088, 1080, 1089, 1090, 1088, 1086, 1111]
      else c)"

text \<open>
  \<open>transformed_products\<close>: a Python dict keeps its keys in the order of their first
  insertion and an assignment to a present key replaces the value in place, which is
  \<open>AList.update\<close>. Each value is referenced from the dict alone, so mutating
  \<open>existing_product\<close> is an update of the dict at its key.
\<close>

type_synonym products = "(int \<times> ConsolidatedProduct) list"

text \<open>
  The body of the first \<open>try\<close> (lines 115 to 142). \<open>Inl\<close> is the exception that leaves
  it; \<open>continue\<close> returns the dict as it was.
\<close>

definition seed_body :: "pyenv \<Rightarrow> json \<Rightarrow> products \<Rightarrow> py_error + products" where
  "seed_body E item_a_raw tp =
     (case dict_get item_a_raw (ascii ''price'') (JInt 0) of Inl e \<Rightarrow> Inl e | Inr pv \<Rightarrow>
     (case py_le_0 pv of Inl e \<Rightarrow> Inl e | Inr True \<Rightarrow> Inr tp | Inr False \<Rightarrow>
     (case dict_get item_a_raw (ascii ''stock'') (JInt 0) of Inl e \<Rightarrow> Inl e | Inr sv \<Rightarrow>
     (case py_le_0 sv of Inl e \<Rightarrow> Inl e | Inr True \<Rightarrow> Inr tp | Inr False \<Rightarrow>
     (case ProductSourceA_init E item_a_raw of Inl e \<Rightarrow> Inl e | Inr item_a0 \<Rightarrow>
       (let item_a = item_a0\<lparr>category := standardize_category E (category item_a0)\<rparr> in
        (case ConsolidatedProduct_init (id_A item_a) (name item_a) (category item_a)
                (price item_a) (stock item_a) None None of
           Inl e \<Rightarrow> Inl e
         | Inr cp \<Rightarrow> Inr (AList.update (id_A item_a) cp tp))))))))"

text \<open>One round of the first loop: \<open>except Exception\<close> logs and goes on.\<close>

definition seed_item :: "pyenv \<Rightarrow> json \<Rightarrow> products \<Rightarrow> products" where
  "seed_item E item_a_raw tp =
     (case seed_body E item_a_raw tp of Inl e \<Rightarrow> tp | Inr tp' \<Rightarrow> tp')"

definition clean_and_seed :: "pyenv \<Rightarrow> json list \<Rightarrow> products" where
  "clean_and_seed E data_a = fold (seed_item E) data_a []"

text \<open>
  Lines 159 to 185: the update of an existing product by a patch. No step of it can
  raise. The two prices of the percentage are read before the price is overwritten, and
  the integer 100 of line 182 is the float 100.0 in the product.
\<close>

definition update_existing ::
  "pyenv \<Rightarrow> ProductSourceB \<Rightarrow> ConsolidatedProduct \<Rightarrow> ConsolidatedProduct" where
  "update_existing E item_b ep0 =
     (let ep1 = (case b_name item_b of
                   Some n \<Rightarrow> if n \<noteq> [] then ep0\<lparr>name := n\<rparr> else ep0
                 | None \<Rightarrow> ep0);
          ep2 = (case b_category item_b of
                   Some c \<Rightarrow> if c \<noteq> [] then ep1\<lparr>category := standardize_category E c\<rparr> else ep1
                 | None \<Rightarrow> ep1);
          ep3 = (case b_description item_b of
                   Some d \<Rightarrow> if d \<noteq> [] then ep2\<lparr>description := Some d\<rparr> else ep2
                 | None \<Rightarrow> ep2);
          ep4 = (case b_supplier item_b of
                   Some s \<Rightarrow> if s \<noteq> [] then ep3\<lparr>supplier := Some s\<rparr> else ep3
                 | None \<Rightarrow> ep3);
          new_price_b = (case b_price item_b of Some p \<Rightarrow> p | None \<Rightarrow> price ep4);
          old_price_for_calc = (case old_price item_b of Some p \<Rightarrow> p | None \<Rightarrow> price ep4);
          ep5 = (if old_price_for_calc \<noteq> 0 \<and> new_price_b \<noteq> old_price_for_calc
                 then ep4\<lparr>price_change_percentage :=
                        Some (py_round
                          (float_mul
                             (float_truediv (float_sub new_price_b old_price_for_calc)
                                old_price_for_calc) 100) 2)\<rparr>
                 else ep4);
          ep6 = (case b_price item_b of Some p \<Rightarrow> ep5\<lparr>price := p\<rparr> | None \<Rightarrow> ep5);
          ep7 = (case b_stock item_b of Some s \<Rightarrow> ep6\<lparr>stock := s\<rparr> | None \<Rightarrow> ep6)
      in ep7)"

text \<open>
  The body of the second \<open>try\<close> (lines 152 to 222), on the dict and \<open>current_max_id\<close>.
  The first component is the exception that leaves the body, if any; the second is the
  state at that moment, since what the body has assigned before it raises stays assigned.
\<close>

type_synonym merge_state = "products \<times> int"

definition merge_body :: "pyenv \<Rightarrow> json \<Rightarrow> merge_state \<Rightarrow> py_error option \<times> merge_state" where
  "merge_body E item_b_raw st =
     (case st of (tp, current_max_id) \<Rightarrow>
     (case ProductSourceB_init E item_b_raw of
        Inl e \<Rightarrow> (Some e, (tp, current_max_id))
      | Inr item_b \<Rightarrow>
         (case map_of tp (product_id item_b) of
            Some existing_product \<Rightarrow>
              (None, (AList.update (product_id item_b)
                        (update_existing E item_b existing_product) tp, current_max_id))
          | None \<Rightarrow>
              (if \<not> (truthy (b_name item_b) \<and> truthy (b_category item_b) \<and>
                      b_price item_b \<noteq> None \<and> b_stock item_b \<noteq> None)
               then (None, (tp, current_max_id))
               else
                 (let new_id = current_max_id + 1 in
                  (case ConsolidatedProduct_init new_id (the (b_name item_b))
                          (standardize_category E (the (b_category item_b)))
                          (the (b_price item_b)) (the (b_stock item_b))
                          (b_description item_b) (b_supplier item_b) of
                     Inl e \<Rightarrow> (Some e, (tp, new_id))
                   | Inr cp \<Rightarrow> (None, (AList.update new_id cp tp, new_id))))))))"

text \<open>One round of the second loop: \<open>except Exception\<close> logs and goes on.\<close>

definition merge_item :: "pyenv \<Rightarrow> json \<Rightarrow> merge_state \<Rightarrow> merge_state" where
  "merge_item E item_b_raw st = snd (merge_body E item_b_raw st)"

text \<open>Line 148: the counter starts at the largest key, or at 0 for an empty dict.\<close>

definition initial_max_id :: "products \<Rightarrow> int" where
  "initial_max_id tp = (if tp \<noteq> [] then Max (set (map fst tp)) else 0)"

definition merge_patches :: "pyenv \<Rightarrow> products \<Rightarrow> json list \<Rightarrow> products" where
  "merge_patches E tp data_b = fst (fold (merge_item E) data_b (tp, initial_max_id tp))"

text \<open>Line 226 returns the values of the dict in its order, one \<open>.dict()\<close> per product.\<close>

definition transform_data :: "pyenv \<Rightarrow> json list \<Rightarrow> json list \<Rightarrow> ConsolidatedProduct list" where
  "transform_data E data_a data_b = map snd (merge_patches E (clean_and_seed E data_a) data_b)"

section \<open>get_consolidated_data (lab_5.py, lines 269 to 288)\<close>

datatype detail = Not_found_run_etl_first | Error_reading | Error_validating py_error

datatype http_exception = HTTPException (status_code: nat) (detail: detail)

text \<open>\<open>for item in data\<close>: a list gives its elements, a dict its keys, a string its characters.\<close>

fun py_iter :: "json \<Rightarrow> py_error + json list" where
  "py_iter (JArr xs) = Inr xs"
| "py_iter (JObj kvs) = Inr (map (\<lambda>kv. JStr (fst kv)) kvs)"
| "py_iter (JStr s) = Inr (map (\<lambda>c. JStr [c]) s)"
| "py_iter _ = Inl TypeError"

text \<open>The list comprehension of line 278 stops at the first item that does not validate.\<close>

fun validate_each :: "pyenv \<Rightarrow> json list \<Rightarrow> py_error + ConsolidatedProduct list" where
  "validate_each E [] = Inr []"
| "validate_each E (item # items) =
     (case ConsolidatedProduct_parse E item of
        Inl e \<Rightarrow> Inl e
      | Inr p \<Rightarrow> (case validate_each E items of Inl e \<Rightarrow> Inl e | Inr ps \<Rightarrow> Inr (p # ps)))"

text \<open>
  The body of the \<open>try\<close> (lines 275 to 279). \<open>file\<close> is the content of the file at
  \<open>CONSOLIDATED_DATA_PATH\<close>, \<open>None\<close> when there is no such file; \<open>loads\<close> is the JSON
  decoder, \<open>None\<close> where \<open>json.load\<close> raises \<open>JSONDecodeError\<close>.
\<close>

definition read_and_validate ::
  "pyenv \<Rightarrow> (string \<Rightarrow> json option) \<Rightarrow> string option \<Rightarrow> py_error + ConsolidatedProduct list" where
  "read_and_validate E loads file =
     (case file of
        None \<Rightarrow> Inl FileNotFoundError
      | Some doc \<Rightarrow>
         (case loads doc of
            None \<Rightarrow> Inl JSONDecodeError
          | Some data \<Rightarrow>
             (case py_iter data of Inl e \<Rightarrow> Inl e | Inr items \<Rightarrow> validate_each E items)))"

text \<open>The three \<open>except\<close> clauses, in their order.\<close>

definition get_consolidated_data ::
  "pyenv \<Rightarrow> (string \<Rightarrow> json option) \<Rightarrow> string option \<Rightarrow> http_exception + ConsolidatedProduct list" where
  "get_consolidated_data E loads file =
     (case read_and_validate E loads file of
        Inr validated_data \<Rightarrow> Inr validated_data
      | Inl FileNotFoundError \<Rightarrow> Inl (HTTPException 404 Not_found_run_etl_first)
      | Inl JSONDecodeError \<Rightarrow> Inl (HTTPException 500 Error_reading)
      | Inl e \<Rightarrow> Inl (HTTPException 500 (Error_validating e)))"

section \<open>Vocabulary of the properties\<close>


definition positive :: "json \<Rightarrow> string \<Rightarrow> bool" where
  "positive raw k =
     (case dict_get raw (ascii k) (JInt 0) of Inl e \<Rightarrow> False | Inr v \<Rightarrow> py_le_0 v = Inr False)"

text \<open>A candidate that passes the cleaning rule and validates as the product \<open>a\<close>.\<close>

definition valid_candidate :: "pyenv \<Rightarrow> json \<Rightarrow> ProductSourceA \<Rightarrow> bool" where
  "valid_candidate E raw a \<longleftrightarrow>
     positive raw ''price'' \<and> positive raw ''stock'' \<and> ProductSourceA_init E raw = Inr a"





section \<open>A runtime and inputs for concrete runs\<close>

text \<open>
  A value of exactly the declared type validates (an \<open>int\<close> also as a \<open>float\<close>) and
  everything else is rejected; outside ASCII, \<open>lower\<close> changes nothing. The inputs below
  hold values of the declared types only.
\<close>

fun strict_int :: "json \<Rightarrow> int option" where
  "strict_int (JInt n) = Some n"
| "strict_int _ = None"

fun strict_float :: "json \<Rightarrow> rat option" where
  "strict_float (JInt n) = Some (of_int n)"
| "strict_float (JFloat x) = Some x"
| "strict_float _ = None"

fun strict_str :: "json \<Rightarrow> str option" where
  "strict_str (JStr s) = Some s"
| "strict_str _ = None"

definition strict_env :: pyenv where
  "strict_env = \<lparr>unicode_lower = (\<lambda>s. s), int_validator = strict_int,
                 float_validator = strict_float, str_validator = strict_str\<rparr>"

text \<open>\<open>{"id": i, "name": n, "category": c, "price": p, "stock": s}\<close>\<close>

definition primary :: "int \<Rightarrow> string \<Rightarrow> string \<Rightarrow> int \<Rightarrow> int \<Rightarrow> json" where
  "primary i n c p s =
     JObj [(ascii ''id'', JInt i), (ascii ''name'', JStr (ascii n)),
           (ascii ''category'', JStr (ascii c)), (ascii ''price'', JInt p), (ascii ''stock'', JInt s)]"

text \<open>\<open>{"product_id": i, "name": n, "category": c, "price": p, "stock": s}\<close>\<close>

definition new_product :: "int \<Rightarrow> string \<Rightarrow> string \<Rightarrow> int \<Rightarrow> int \<Rightarrow> json" where
  "new_product i n c p s =
     JObj [(ascii ''product_id'', JInt i), (ascii ''name'', JStr (ascii n)),
           (ascii ''category'', JStr (ascii c)), (ascii ''price'', JInt p), (ascii ''stock'', JInt s)]"

text \<open>\<open>{"product_id": 1, "old_price": 100, "price": 90}\<close>\<close>

definition price_patch :: json where
  "price_patch =
     JObj [(ascii ''product_id'', JInt 1), (ascii ''old_price'', JInt 100), (ascii ''price'', JInt 90)]"

text \<open>\<open>{"product_id": 1, "price": -5, "stock": -3}\<close>\<close>

definition negative_patch :: json where
  "negative_patch =
     JObj [(ascii ''product_id'', JInt 1), (ascii ''price'', JInt (- 5)), (ascii ''stock'', JInt (- 3))]"

text \<open>\<open>{"product_id": 1, "stock": 7}\<close>\<close>

definition restock_patch :: json where
  "restock_patch = JObj [(ascii ''product_id'', JInt 1), (ascii ''stock'', JInt 7)]"

text \<open>\<open>{"product_id": 1, "price": p}\<close>\<close>

definition new_price_patch :: "int \<Rightarrow> json" where
  "new_price_patch p = JObj [(ascii ''product_id'', JInt 1), (ascii ''price'', JInt p)]"

definition tablet :: "rat \<Rightarrow> ConsolidatedProduct" where
  "tablet p =
     \<lparr>name = ascii ''Tablet'', category = ascii ''Tablets'', price = p, stock = 2,
      id_C = 1, description = None, supplier = None, price_change_percentage = None\<rparr>"

definition laptop_alpha :: ConsolidatedProduct where
  "laptop_alpha =
     \<lparr>name = ascii ''Alpha'', category = ascii ''Laptops'', price = 100, stock = 5,
      id_C = 1, description = None, supplier = None, price_change_percentage = None\<rparr>"


text \<open>A decoder that accepts two documents and rejects every other text.\<close>

definition sample_loads :: "string \<Rightarrow> json option" where
  "sample_loads doc =
     (if doc = ''[]'' then Some (JArr [])
      else if doc = ''[{}]'' then Some (JArr [JObj []])
      else None)"

section \<open>Strings and categories\<close>

lemma length_ascii: "length (ascii n) = length n"
  by (simp add: ascii_def)

lemma ascii_eq_iff: "ascii s = ascii t \<longleftrightarrow> s = t"
  by (simp add: ascii_def inj_map_eq_map inj_of_char)

lemma standardize_Laptops:
  "standardize_category E (ascii ''Laptops'') = [1053, 1086, 1091, 1090, 1073, 1091, 1082, 1080]"
  by (simp add: standardize_category_def lower_def ascii_def ascii_lower_def)

lemma standardize_laptops:
  "standardize_category E (ascii ''laptops'') = [1053, 1086, 1091, 1090, 1073, 1091, 1082, 1080]"
  by (simp add: standardize_category_def lower_def ascii_def ascii_lower_def)


section \<open>The update of an existing product, field by field\<close>

lemma update_existing_percentage:
  "price_change_percentage (update_existing E item_b ep) =
     (let new_price = (case b_price item_b of Some p \<Rightarrow> p | None \<Rightarrow> price ep);
          reference_price = (case old_price item_b of Some p \<Rightarrow> p | None \<Rightarrow> price ep)
      in if reference_price \<noteq> 0 \<and> new_price \<noteq> reference_price
         then Some (py_round
                (float_mul (float_truediv (float_sub new_price reference_price) reference_price)
                   100) 2)
         else price_change_percentage ep)"
  by (simp add: update_existing_def Let_def split: option.split)

lemma update_existing_price:
  "price (update_existing E item_b ep) = (case b_price item_b of Some p \<Rightarrow> p | None \<Rightarrow> price ep)"
  by (simp add: update_existing_def Let_def split: option.split)

lemma update_existing_stock:
  "stock (update_existing E item_b ep) = (case b_stock item_b of Some s \<Rightarrow> s | None \<Rightarrow> stock ep)"
  by (simp add: update_existing_def Let_def split: option.split)

lemma update_existing_name:
  "name (update_existing E item_b ep) =
     (if truthy (b_name item_b) then the (b_name item_b) else name ep)"
  by (simp add: update_existing_def Let_def split: option.split)

lemma update_existing_category:
  "category (update_existing E item_b ep) =
     (if truthy (b_category item_b) then standardize_category E (the (b_category item_b))
      else category ep)"
  by (simp add: update_existing_def Let_def split: option.split)

lemma update_existing_description:
  "description (update_existing E item_b ep) =
     (if truthy (b_description item_b) then b_description item_b else description ep)"
  by (simp add: update_existing_def Let_def split: option.split)

lemma update_existing_supplier:
  "supplier (update_existing E item_b ep) =
     (if truthy (b_supplier item_b) then b_supplier item_b else supplier ep)"
  by (simp add: update_existing_def Let_def split: option.split)

lemma update_existing_id: "id_C (update_existing E item_b ep) = id_C ep"
  by (simp add: update_existing_def Let_def split: option.split)

section \<open>One round of the merge loop\<close>

lemma merge_item_update:
  assumes "ProductSourceB_init E item_b_raw = Inr item_b"
    and "map_of tp (product_id item_b) = Some ep"
  shows "merge_item E item_b_raw (tp, c) =
           (AList.update (product_id item_b) (update_existing E item_b ep) tp, c)"
  using assms by (simp add: merge_item_def merge_body_def)

lemma merge_item_unmatched:
  assumes "ProductSourceB_init E raw = Inr b" and "map_of tp (product_id b) = None"
    and "merge_item E raw (tp, c) = (tp', c')" and "tp' \<noteq> tp"
  shows "c' = c + 1 \<and> (\<exists>cp. tp' = AList.update (c + 1) cp tp)"
  using assms
  by (auto simp: merge_item_def merge_body_def Let_def split: if_splits sum.splits)

text \<open>An exception in the body leaves the dict as it was; the counter may have moved.\<close>

lemma merge_body_raise:
  "merge_body E raw (tp, c) = (Some e, (tp', c')) \<Longrightarrow> tp' = tp \<and> (c' = c \<or> c' = c + 1)"
  by (auto simp: merge_body_def Let_def split: if_splits sum.splits option.splits)

lemma merge_item_keys_mono:
  "k \<in> fst ` set (fst st) \<Longrightarrow> k \<in> fst ` set (fst (merge_item E raw st))"
  by (cases st) (auto simp: merge_item_def merge_body_def Let_def dom_update
        split: sum.splits option.splits)

lemma merge_loop_keys_mono:
  "k \<in> fst ` set (fst st) \<Longrightarrow> k \<in> fst ` set (fst (fold (merge_item E) raws st))"
  by (induction raws arbitrary: st) (auto simp: merge_item_keys_mono)

lemma price_patch_init:
  "ProductSourceB_init strict_env price_patch =
     Inr \<lparr>product_id = 1, b_name = None, b_category = None, b_description = None,
           b_supplier = None, old_price = Some 100, b_price = Some 90, b_stock = None\<rparr>"
  by code_simp

section \<open>Merging no patch\<close>

text \<open>
  Claim C8. For every seeded mapping, merging an empty sequence of patches returns the
  mapping as it was: \<open>merge_patches(seed, []) == seed\<close>.
\<close>

theorem merge_patches_empty: "merge_patches E seed [] = seed"
  by (simp add: merge_patches_def)

section \<open>The price change percentage\<close>

text \<open>
  The expression of line 182 on some prices. From 4000 to 4001 the exact quotient is
  0.025, but the float product is just above it, so the percentage is the double nearest
  to 0.03. From 800 to 801 and to 803 the product is exactly 0.125 and 0.375, a tie, which
  goes to the even digit: 0.12 and 0.38.
\<close>

lemma finite_double_small: "\<bar>x\<bar> < 1024 \<Longrightarrow> finite_double x"
proof -
  assume x: "\<bar>x\<bar> < 1024"
  have "(2::rat) ^ 10 \<le> 2 ^ 1024"
    by (rule power_increasing) simp_all
  then have "(1024::rat) \<le> 2 ^ 1024"
    by simp
  with x show "finite_double x"
    unfolding finite_double_def by (rule less_le_trans)
qed

lemma percentage_100_90:
  "py_round (float_mul (float_truediv (float_sub 90 100) 100) 100) 2 = - 10"
  by code_simp

lemma percentage_4000_4001:
  "py_round (float_mul (float_truediv (float_sub 4001 4000) 4000) 100) 2
     = 1080863910568919 / 2 ^ 55"
  by code_simp

lemma percentage_800_801:
  "py_round (float_mul (float_truediv (float_sub 801 800) 800) 100) 2 = fl (12 / 100)"
  by code_simp

lemma percentage_800_803:
  "py_round (float_mul (float_truediv (float_sub 803 800) 800) 100) 2 = fl (38 / 100)"
  by code_simp

lemma nearest_double_of_3_hundredths: "fl (3 / 100) = 1080863910568919 / 2 ^ 55"
  by code_simp

text \<open>
  Claim C2. For every patch that validates and whose identifier is a key of the dict, the
  round of the loop replaces the product at that key by its update and leaves the counter
  alone. With \<open>new_price\<close> the price of the patch if it has one, else the price of the
  product, and \<open>reference_price\<close> the old price of the patch if it has one, else the price
  of the product, the percentage of the updated product is
  \<open>round(((new_price - reference_price) / reference_price) * 100, 2)\<close>, computed in float
  arithmetic, when \<open>reference_price\<close> is not 0 and \<open>new_price\<close> differs from it, and is the
  percentage the product had otherwise. Both prices are those before the update; the
  price after it is \<open>new_price\<close>. The three hypotheses on \<open>finite_double\<close> say that no
  step of the expression exceeds the range of the doubles.
\<close>

theorem price_change_percentage_on_update:
  assumes "ProductSourceB_init E item_b_raw = Inr item_b"
    and "map_of tp (product_id item_b) = Some ep"
    and "new_price = (case b_price item_b of Some p \<Rightarrow> p | None \<Rightarrow> price ep)"
    and "reference_price = (case old_price item_b of Some p \<Rightarrow> p | None \<Rightarrow> price ep)"
    and "finite_double (float_sub new_price reference_price)"
    and "finite_double (float_truediv (float_sub new_price reference_price) reference_price)"
    and "finite_double
           (float_mul (float_truediv (float_sub new_price reference_price) reference_price) 100)"
  shows "merge_item E item_b_raw (tp, current_max_id) =
           (AList.update (product_id item_b) (update_existing E item_b ep) tp, current_max_id)
         \<and> price_change_percentage (update_existing E item_b ep) =
             (if reference_price \<noteq> 0 \<and> new_price \<noteq> reference_price
              then Some (py_round
                     (float_mul
                        (float_truediv (float_sub new_price reference_price) reference_price)
                        100) 2)
              else price_change_percentage ep)
         \<and> price (update_existing E item_b ep) = new_price"
  using assms(1-4)
  by (simp add: Let_def merge_item_update update_existing_percentage update_existing_price)

text \<open>
  Old price 100 and price 90 give -10. A patch with the price 4001 and no old price, on
  a product of price 4000, takes 4000 as the reference and gives the double nearest to
  0.03.
\<close>

theorem price_change_percentage_on_update_witness:
  "ProductSourceB_init strict_env price_patch =
     Inr \<lparr>product_id = 1, b_name = None, b_category = None, b_description = None,
           b_supplier = None, old_price = Some 100, b_price = Some 90, b_stock = None\<rparr>
   \<and> map_of [(1, laptop_alpha)] 1 = Some laptop_alpha
   \<and> finite_double (float_sub 90 100)
   \<and> finite_double (float_truediv (float_sub 90 100) 100)
   \<and> finite_double (float_mul (float_truediv (float_sub 90 100) 100) 100)
   \<and> merge_item strict_env price_patch ([(1, laptop_alpha)], 1) =
       ([(1, laptop_alpha\<lparr>price := 90, price_change_percentage := Some (- 10)\<rparr>)], 1)
   \<and> ProductSourceB_init strict_env (new_price_patch 4001) =
       Inr \<lparr>product_id = 1, b_name = None, b_category = None, b_description = None,
             b_supplier = None, old_price = None, b_price = Some 4001, b_stock = None\<rparr>
   \<and> finite_double (float_sub 4001 4000)
   \<and> finite_double (float_truediv (float_sub 4001 4000) 4000)
   \<and> finite_double (float_mul (float_truediv (float_sub 4001 4000) 4000) 100)
   \<and> price_change_percentage
         (update_existing strict_env
            \<lparr>product_id = 1, b_name = None, b_category = None, b_description = None,
              b_supplier = None, old_price = None, b_price = Some 4001, b_stock = None\<rparr>
            (tablet 4000)) = Some (1080863910568919 / 2 ^ 55)
   \<and> merge_item strict_env (new_price_patch 4001) ([(1, tablet 4000)], 1) =
       ([(1, (tablet 4000)\<lparr>price := 4001,
                price_change_percentage := Some (1080863910568919 / 2 ^ 55)\<rparr>)], 1)"
proof -
  let ?b = "\<lparr>product_id = 1, b_name = None, b_category = None, b_description = None,
           b_supplier = None, old_price = Some 100, b_price = Some 90, b_stock = None\<rparr>"
  let ?c = "\<lparr>product_id = 1, b_name = None, b_category = None, b_description = None,
           b_supplier = None, old_price = None, b_price = Some 4001, b_stock = None\<rparr>"
  have b1: "ProductSourceB_init strict_env price_patch = Inr ?b"
    by code_simp
  have b2: "map_of [(1::int, laptop_alpha)] (product_id ?b) = Some laptop_alpha"
    by simp
  have b3: "(90::rat) = (case b_price ?b of Some p \<Rightarrow> p | None \<Rightarrow> price laptop_alpha)"
    by simp
  have b4: "(100::rat) = (case old_price ?b of Some p \<Rightarrow> p | None \<Rightarrow> price laptop_alpha)"
    by simp
  have b5: "finite_double (float_sub 90 100)"
    by (rule finite_double_small) code_simp
  have b6: "finite_double (float_truediv (float_sub 90 100) 100)"
    by (rule finite_double_small) code_simp
  have b7: "finite_double (float_mul (float_truediv (float_sub 90 100) 100) 100)"
    by (rule finite_double_small) code_simp
  have b8: "update_existing strict_env ?b laptop_alpha =
              laptop_alpha\<lparr>price := 90, price_change_percentage := Some (- 10)\<rparr>"
    by (simp add: update_existing_def laptop_alpha_def percentage_100_90)
  have c1: "ProductSourceB_init strict_env (new_price_patch 4001) = Inr ?c"
    by code_simp
  have c2: "map_of [(1::int, tablet 4000)] (product_id ?c) = Some (tablet 4000)"
    by simp
  have c3: "(4001::rat) = (case b_price ?c of Some p \<Rightarrow> p | None \<Rightarrow> price (tablet 4000))"
    by simp
  have c4: "(4000::rat) = (case old_price ?c of Some p \<Rightarrow> p | None \<Rightarrow> price (tablet 4000))"
    by (simp add: tablet_def)
  have c5: "finite_double (float_sub 4001 4000)"
    by (rule finite_double_small) code_simp
  have c6: "finite_double (float_truediv (float_sub 4001 4000) 4000)"
    by (rule finite_double_small) code_simp
  have c7: "finite_double (float_mul (float_truediv (float_sub 4001 4000) 4000) 100)"
    by (rule finite_double_small) code_simp
  have c8: "update_existing strict_env ?c (tablet 4000) =
              (tablet 4000)\<lparr>price := 4001,
                 price_change_percentage := Some (1080863910568919 / 2 ^ 55)\<rparr>"
    by (simp add: update_existing_def tablet_def percentage_4000_4001)
  from price_change_percentage_on_update [OF b1 b2 b3 b4 b5 b6 b7, of 1] b8
  have b: "merge_item strict_env price_patch ([(1, laptop_alpha)], 1) =
       ([(1, laptop_alpha\<lparr>price := 90, price_change_percentage := Some (- 10)\<rparr>)], 1)"
    by simp
  from price_change_percentage_on_update [OF c1 c2 c3 c4 c5 c6 c7, of 1]
  have c: "merge_item strict_env (new_price_patch 4001) ([(1, tablet 4000)], 1) =
             ([(1, update_existing strict_env ?c (tablet 4000))], 1)
           \<and> price_change_percentage (update_existing strict_env ?c (tablet 4000)) =
               Some (py_round (float_mul (float_truediv (float_sub 4001 4000) 4000) 100) 2)"
    by simp
  from c have c9: "price_change_percentage (update_existing strict_env ?c (tablet 4000)) =
                     Some (1080863910568919 / 2 ^ 55)"
    by (simp only: percentage_4000_4001)
  from c c8 have c10: "merge_item strict_env (new_price_patch 4001) ([(1, tablet 4000)], 1) =
       ([(1, (tablet 4000)\<lparr>price := 4001,
                price_change_percentage := Some (1080863910568919 / 2 ^ 55)\<rparr>)], 1)"
    by (simp only:)
  from b1 b2 b5 b6 b7 b c1 c5 c6 c7 c9 c10 show ?thesis
    by simp
qed

text \<open>With reference price 0 the percentage is left as it was, whatever the new price.\<close>

lemma reference_price_zero:
  "old_price item_b = Some 0 \<Longrightarrow>
     price_change_percentage (update_existing E item_b ep) = price_change_percentage ep"
  by (simp add: update_existing_percentage)

section \<open>Empty strings in a patch\<close>

text \<open>
  Claim C10. In the update of an existing product, a patch with the empty string for
  name, category, description or supplier does what the patch without that field does,
  and the product keeps its value of the field; a stock or a price in the patch, whatever
  its value, becomes the stock or the price of the product.
\<close>

theorem empty_string_leaves_field:
  "update_existing E (item_b\<lparr>b_name := Some []\<rparr>) ep = update_existing E (item_b\<lparr>b_name := None\<rparr>) ep
   \<and> update_existing E (item_b\<lparr>b_category := Some []\<rparr>) ep = update_existing E (item_b\<lparr>b_category := None\<rparr>) ep
   \<and> update_existing E (item_b\<lparr>b_description := Some []\<rparr>) ep = update_existing E (item_b\<lparr>b_description := None\<rparr>) ep
   \<and> update_existing E (item_b\<lparr>b_supplier := Some []\<rparr>) ep = update_existing E (item_b\<lparr>b_supplier := None\<rparr>) ep
   \<and> name (update_existing E (item_b\<lparr>b_name := Some []\<rparr>) ep) = name ep
   \<and> category (update_existing E (item_b\<lparr>b_category := Some []\<rparr>) ep) = category ep
   \<and> description (update_existing E (item_b\<lparr>b_description := Some []\<rparr>) ep) = description ep
   \<and> supplier (update_existing E (item_b\<lparr>b_supplier := Some []\<rparr>) ep) = supplier ep
   \<and> stock (update_existing E (item_b\<lparr>b_stock := Some s\<rparr>) ep) = s
   \<and> price (update_existing E (item_b\<lparr>b_price := Some p\<rparr>) ep) = p"
proof -
  have "update_existing E (item_b\<lparr>b_name := Some []\<rparr>) ep = update_existing E (item_b\<lparr>b_name := None\<rparr>) ep"
    by (simp add: update_existing_def)
  moreover have "update_existing E (item_b\<lparr>b_category := Some []\<rparr>) ep = update_existing E (item_b\<lparr>b_category := None\<rparr>) ep"
    by (simp add: update_existing_def)
  moreover have "update_existing E (item_b\<lparr>b_description := Some []\<rparr>) ep = update_existing E (item_b\<lparr>b_description := None\<rparr>) ep"
    by (simp add: update_existing_def)
  moreover have "update_existing E (item_b\<lparr>b_supplier := Some []\<rparr>) ep = update_existing E (item_b\<lparr>b_supplier := None\<rparr>) ep"
    by (simp add: update_existing_def)
  ultimately show ?thesis
    by (simp add: update_existing_name update_existing_category update_existing_description
          update_existing_supplier update_existing_stock update_existing_price)
qed

section \<open>A patch aimed at an identifier assigned in the same pass\<close>

text \<open>
  Claim C9. When a patch matches no key and its round of the loop inserts a product, the
  product is stored under the counter plus one. Any later patch of the same pass whose
  \<open>product_id\<close> is that identifier finds the key and updates the product stored there:
  the keys of the dict and the counter stay as they were, so it is not inserted as one
  more product.
\<close>

theorem later_patch_updates_inserted_record:
  assumes "ProductSourceB_init E raw1 = Inr b1"
    and "map_of tp (product_id b1) = None"
    and "merge_item E raw1 (tp, c) = (tp', c')"
    and "tp' \<noteq> tp"
    and "st = fold (merge_item E) between (tp', c')"
    and "ProductSourceB_init E raw2 = Inr b2"
    and "product_id b2 = c'"
  shows "c' = c + 1 \<and> (\<exists>cp. tp' = AList.update c' cp tp) \<and>
         (\<exists>ep. map_of (fst st) c' = Some ep \<and>
               merge_item E raw2 st = (AList.update c' (update_existing E b2 ep) (fst st), snd st) \<and>
               map fst (fst (merge_item E raw2 st)) = map fst (fst st))"
proof -
  from merge_item_unmatched [OF assms(1-4)]
  obtain cp where c': "c' = c + 1" and tp': "tp' = AList.update c' cp tp"
    by auto
  have "c' \<in> fst ` set (fst (tp', c'))"
    by (simp add: tp' dom_update)
  then have key: "c' \<in> fst ` set (fst st)"
    unfolding assms(5) by (rule merge_loop_keys_mono)
  then obtain ep where ep: "map_of (fst st) c' = Some ep"
    by (metis map_of_eq_None_iff not_None_eq)
  have "map_of (fst st) (product_id b2) = Some ep"
    using ep assms(7) by simp
  from merge_item_update [OF assms(6) this, of "snd st"]
  have step: "merge_item E raw2 st = (AList.update c' (update_existing E b2 ep) (fst st), snd st)"
    using assms(7) by simp
  have "map fst (fst (merge_item E raw2 st)) = map fst (fst st)"
    using key by (simp add: step update_keys)
  with c' tp' ep step show ?thesis by blast
qed

text \<open>
  On an empty dict a new product with identifier 9 is stored under 1; the patch for
  identifier 1 that follows restocks it.
\<close>

theorem later_patch_updates_inserted_record_witness:
  "map_of ([] :: products) 9 = None
   \<and> fst (merge_item strict_env (new_product 9 ''Watch'' ''Wearables'' 50 3) ([], 0)) \<noteq> []
   \<and> merge_item strict_env restock_patch
        (merge_item strict_env (new_product 9 ''Watch'' ''Wearables'' 50 3) ([], 0)) =
       ([(1, \<lparr>name = ascii ''Watch'',
              category = [1053, 1086, 1089, 1080, 1084, 1110, 32, 1087, 1088, 1080, 1089, 1090, 1088, 1086, 1111],
              price = 50, stock = 7, id_C = 1, description = None, supplier = None,
              price_change_percentage = None\<rparr>)], 1)"
proof -
  let ?w = "\<lparr>name = ascii ''Watch'',
              category = [1053, 1086, 1089, 1080, 1084, 1110, 32, 1087, 1088, 1080, 1089, 1090, 1088, 1086, 1111],
              price = 50, stock = 3, id_C = 1, description = None, supplier = None,
              price_change_percentage = None\<rparr>"
  let ?b1 = "\<lparr>product_id = 9, b_name = Some (ascii ''Watch''), b_category = Some (ascii ''Wearables''),
              b_description = None, b_supplier = None, old_price = None, b_price = Some 50,
              b_stock = Some 3\<rparr>"
  let ?b2 = "\<lparr>product_id = 1, b_name = None, b_category = None, b_description = None,
              b_supplier = None, old_price = None, b_price = None, b_stock = Some 7\<rparr>"
  have h1: "ProductSourceB_init strict_env (new_product 9 ''Watch'' ''Wearables'' 50 3) = Inr ?b1"
    by code_simp
  have h2: "map_of ([] :: products) (product_id ?b1) = None"
    by simp
  have h3: "merge_item strict_env (new_product 9 ''Watch'' ''Wearables'' 50 3) ([], 0) = ([(1, ?w)], 1)"
    by code_simp
  have h4: "[(1, ?w)] \<noteq> ([] :: products)"
    by simp
  have h5: "([(1, ?w)], 1) = fold (merge_item strict_env) [] ([(1, ?w)], 1)"
    by simp
  have h6: "ProductSourceB_init strict_env restock_patch = Inr ?b2"
    by code_simp
  have h7: "product_id ?b2 = 1"
    by simp
  have u: "update_existing strict_env ?b2 ?w = ?w\<lparr>stock := 7\<rparr>"
    by code_simp
  from later_patch_updates_inserted_record [OF h1 h2 h3 h4 h5 h6 h7] h3 u show ?thesis
    by auto
qed

section \<open>The seeding loop\<close>











text \<open>
  Where the source repeats an identifier, against the data model, the assignment of line
  136 replaces the record: of two valid candidates with the identifier 1 the dict holds
  the second.
\<close>

lemma duplicate_identifier_last_wins:
  "valid_candidate strict_env (primary 1 ''Alpha'' ''Laptops'' 100 5)
      \<lparr>name = ascii ''Alpha'', category = ascii ''Laptops'', price = 100, stock = 5, id_A = 1\<rparr>
   \<and> clean_and_seed strict_env
        [primary 1 ''Alpha'' ''Laptops'' 100 5, primary 1 ''Bravo'' ''Audio'' 50 2] =
       [(1, \<lparr>name = ascii ''Bravo'',
             category = [1040, 1091, 1076, 1110, 1086, 1090, 1077, 1093, 1085, 1110, 1082, 1072],
             price = 50, stock = 2, id_C = 1, description = None, supplier = None,
             price_change_percentage = None\<rparr>)]"
  by code_simp









section \<open>Reading the snapshot back\<close>

lemma parse_error_kind:
  "ConsolidatedProduct_parse E item = Inl e \<Longrightarrow> e = TypeError \<or> e = ValidationError"
  by (cases item) (auto simp: raise_if_None_def split: option.splits)

lemma validate_each_error_kind:
  "validate_each E items = Inl e \<Longrightarrow> e = TypeError \<or> e = ValidationError"
  by (induction items arbitrary: e) (auto split: sum.splits dest: parse_error_kind)

lemma validate_each_fails:
  "item \<in> set items \<Longrightarrow> ConsolidatedProduct_parse E item = Inl e \<Longrightarrow>
     \<exists>e'. validate_each E items = Inl e'"
  by (induction items) (auto split: sum.splits)

lemma py_iter_error_kind: "py_iter data = Inl e \<Longrightarrow> e = TypeError"
  by (cases data) auto

lemma read_and_validate_error:
  assumes "read_and_validate E loads file = Inl e"
  shows "(e = FileNotFoundError \<longleftrightarrow> file = None) \<and>
         (e = JSONDecodeError \<longleftrightarrow> (\<exists>doc. file = Some doc \<and> loads doc = None))"
  using assms
  by (auto simp: read_and_validate_def split: option.splits sum.splits
        dest: validate_each_error_kind py_iter_error_kind)

text \<open>
  Claim C7. \<open>get_consolidated_data\<close> fails with status 404 when there is no snapshot file,
  as before any run of the pipeline; it fails with status 500 when the file is there and
  is not JSON, and when it is a JSON list with an item that does not validate as a
  \<open>ConsolidatedProduct\<close>. Whenever it fails the status is 404 if the file is missing and
  500 if not, so the caller tells a missing snapshot from a corrupted one.
\<close>

theorem get_consolidated_data_errors:
  "(file = None \<longrightarrow>
      get_consolidated_data E loads file = Inl (HTTPException 404 Not_found_run_etl_first))
   \<and> (\<forall>doc. file = Some doc \<and> loads doc = None \<longrightarrow>
      get_consolidated_data E loads file = Inl (HTTPException 500 Error_reading))
   \<and> (\<forall>doc items item e.
        file = Some doc \<and> loads doc = Some (JArr items) \<and> item \<in> set items \<and>
        ConsolidatedProduct_parse E item = Inl e \<longrightarrow>
        (\<exists>e'. get_consolidated_data E loads file = Inl (HTTPException 500 (Error_validating e'))))
   \<and> (\<forall>x. get_consolidated_data E loads file = Inl x \<longrightarrow>
        status_code x = (if file = None then 404 else 500))"
proof (intro conjI allI impI)
  assume "file = None"
  then show "get_consolidated_data E loads file = Inl (HTTPException 404 Not_found_run_etl_first)"
    by (simp add: get_consolidated_data_def read_and_validate_def)
next
  fix doc
  assume "file = Some doc \<and> loads doc = None"
  then show "get_consolidated_data E loads file = Inl (HTTPException 500 Error_reading)"
    by (simp add: get_consolidated_data_def read_and_validate_def)
next
  fix doc items item e
  assume a: "file = Some doc \<and> loads doc = Some (JArr items) \<and> item \<in> set items \<and>
        ConsolidatedProduct_parse E item = Inl e"
  then obtain e' where e': "validate_each E items = Inl e'"
    using validate_each_fails by blast
  from validate_each_error_kind [OF e'] a e'
  show "\<exists>e'. get_consolidated_data E loads file = Inl (HTTPException 500 (Error_validating e'))"
    by (auto simp: get_consolidated_data_def read_and_validate_def)
next
  fix x
  assume x: "get_consolidated_data E loads file = Inl x"
  then obtain e where e: "read_and_validate E loads file = Inl e"
    by (auto simp: get_consolidated_data_def split: sum.splits)
  from read_and_validate_error [OF e] x e
  show "status_code x = (if file = None then 404 else 500)"
    by (cases e) (auto simp: get_consolidated_data_def)
qed

text \<open>No file; a file that is not JSON; a JSON list whose one item has no field.\<close>

theorem get_consolidated_data_errors_witness:
  "get_consolidated_data strict_env sample_loads None =
     Inl (HTTPException 404 Not_found_run_etl_first)
   \<and> sample_loads ''{'' = None
   \<and> get_consolidated_data strict_env sample_loads (Some ''{'') =
       Inl (HTTPException 500 Error_reading)
   \<and> sample_loads ''[{}]'' = Some (JArr [JObj []])
   \<and> ConsolidatedProduct_parse strict_env (JObj []) = Inl ValidationError
   \<and> get_consolidated_data strict_env sample_loads (Some ''[{}]'') =
       Inl (HTTPException 500 (Error_validating ValidationError))
   \<and> status_code (HTTPException 500 (Error_validating ValidationError)) = 500"
proof -
  have l1: "sample_loads ''{'' = None"
    by (simp add: sample_loads_def)
  have l2: "sample_loads ''[{}]'' = Some (JArr [JObj []])"
    by (simp add: sample_loads_def)
  have p: "ConsolidatedProduct_parse strict_env (JObj []) = Inl ValidationError"
    by code_simp
  have g: "get_consolidated_data strict_env sample_loads (Some ''[{}]'') =
       Inl (HTTPException 500 (Error_validating ValidationError))"
    by code_simp
  from get_consolidated_data_errors [of None strict_env sample_loads]
  have a: "get_consolidated_data strict_env sample_loads None =
             Inl (HTTPException 404 Not_found_run_etl_first)"
    by simp
  from get_consolidated_data_errors [of "Some ''{''" strict_env sample_loads] l1
  have b: "get_consolidated_data strict_env sample_loads (Some ''{'') =
             Inl (HTTPException 500 Error_reading)"
    by simp
  from get_consolidated_data_errors [of "Some ''[{}]''" strict_env sample_loads] g
  have c: "status_code (HTTPException 500 (Error_validating ValidationError)) = 500"
    by simp
  from a b c l1 l2 p g show ?thesis by simp
qed

section \<open>The whole pipeline on concrete inputs\<close>

lemma seed_one_laptop:
  assumes "3 \<le> length n"
  shows "clean_and_seed strict_env [primary 1 n ''Laptops'' 100 5] =
    [(1, \<lparr>name = ascii n, category = [1053, 1086, 1091, 1090, 1073, 1091, 1082, 1080],
           price = 100, stock = 5, id_C = 1, description = None, supplier = None,
           price_change_percentage = None\<rparr>)]"
  using assms
  by (simp add: clean_and_seed_def seed_item_def seed_body_def primary_def strict_env_def
        required_def raise_if_None_def ProductBase_ok_def ConsolidatedProduct_init_def
        length_ascii standardize_Laptops ascii_eq_iff)

text \<open>
  With the name "A" the primary record fails \<open>min_length=3\<close> and is dropped; the patch
  then matches no key and lacks name, category and stock, so nothing is produced.
\<close>

theorem short_name_example_is_dropped:
  "transform_data strict_env [primary 1 ''A'' ''Laptops'' 100 5] [price_patch] = []"
  by code_simp

text \<open>
  Claim C5, amended. With a name \<open>n\<close> of at least three characters, the pipeline on
  primary = [{id: 1, price: 100, stock: 5, name: n, category: "Laptops"}] and
  patch = [{product_id: 1, old_price: 100, price: 90}] produces the single record
  {id: 1, price: 90, price_change_percentage: -10, category: the canonical laptop
  category, stock: 5, name: n}, with no description and no supplier.
\<close>

theorem end_to_end_example:
  assumes "3 \<le> length n"
  shows "transform_data strict_env [primary 1 n ''Laptops'' 100 5] [price_patch] =
    [\<lparr>name = ascii n, category = [1053, 1086, 1091, 1090, 1073, 1091, 1082, 1080],
      price = 90, stock = 5, id_C = 1, description = None, supplier = None,
      price_change_percentage = Some (- 10)\<rparr>]"
proof -
  let ?r = "\<lparr>name = ascii n, category = [1053, 1086, 1091, 1090, 1073, 1091, 1082, 1080],
           price = 100, stock = 5, id_C = 1, description = None, supplier = None,
           price_change_percentage = None\<rparr>"
  let ?b = "\<lparr>product_id = 1, b_name = None, b_category = None, b_description = None,
           b_supplier = None, old_price = Some 100, b_price = Some 90, b_stock = None\<rparr>"
  have m: "map_of [(1::int, ?r)] (product_id ?b) = Some ?r"
    by simp
  have u: "update_existing strict_env ?b ?r =
             ?r\<lparr>price := 90, price_change_percentage := Some (- 10)\<rparr>"
    by (simp add: update_existing_def percentage_100_90)
  have "merge_item strict_env price_patch ([(1, ?r)], 1) =
          ([(1, ?r\<lparr>price := 90, price_change_percentage := Some (- 10)\<rparr>)], 1)"
    using merge_item_update [OF price_patch_init m, of 1] by (simp add: u)
  then show ?thesis
    by (simp add: transform_data_def merge_patches_def initial_max_id_def
          seed_one_laptop [OF assms])
qed

theorem end_to_end_example_witness:
  "3 \<le> length ''Abc'' \<and>
   transform_data strict_env [primary 1 ''Abc'' ''Laptops'' 100 5] [price_patch] =
    [\<lparr>name = ascii ''Abc'', category = [1053, 1086, 1091, 1090, 1073, 1091, 1082, 1080],
      price = 90, stock = 5, id_C = 1, description = None, supplier = None,
      price_change_percentage = Some (- 10)\<rparr>]"
proof -
  have h: "3 \<le> length ''Abc''" by simp
  from end_to_end_example [OF h] h show ?thesis by simp
qed

text \<open>
  Claim C1. Every record of the final mapping should have a price above 0 and a stock of
  at least 0, also after a patch. Here the patch {product_id: 1, price: -5, stock: -3}
  updates a valid product: the assignments of lines 184 and 185 are not validated, and
  the record comes out with price -5 and stock -3.
\<close>

theorem patched_price_and_stock_not_validated:
  "transform_data strict_env [primary 1 ''Laptop Alpha'' ''Laptops'' 100 5] [negative_patch] =
     [\<lparr>name = ascii ''Laptop Alpha'', category = [1053, 1086, 1091, 1090, 1073, 1091, 1082, 1080],
       price = - 5, stock = - 3, id_C = 1, description = None, supplier = None,
       price_change_percentage = Some (- 105)\<rparr>]"
  by code_simp

text \<open>
  Claim C3. Each inserted patch record should get one more than the largest identifier
  of the mapping. Here the dict holds the key 1; the first new product has a name of two
  characters, so line 195 has counted it when the constructor of line 214 rejects it,
  and the second new product is stored under 3, not 2.
\<close>

theorem rejected_insert_consumes_identifier:
  "map id_C (transform_data strict_env [primary 1 ''Laptop Alpha'' ''Laptops'' 100 5]
     [new_product 7 ''ab'' ''Audio'' 50 3, new_product 8 ''Watch'' ''Wearables'' 50 3]) = [1, 3]"
  by code_simp

text \<open>
  Claim C6. A record that fails should leave the processing of the other records as it
  is. Here the same new product is stored under 1 when it is alone and under 2 when a
  new product that fails validation precedes it.
\<close>

theorem rejected_insert_shifts_sibling_identifier:
  "map id_C (transform_data strict_env [] [new_product 10 ''Speaker'' ''Audio'' 50 3]) = [1]
   \<and> map id_C (transform_data strict_env []
        [new_product 9 ''Xy'' ''Audio'' 50 3, new_product 10 ''Speaker'' ''Audio'' 50 3]) = [2]"
  by code_simp

end
